theory Spec2Isabelle
  imports Complex_Main
begin

section \<open>Data model\<close>

text \<open>
  A JavaScript \<open>number\<close> that arrives in a JSON payload is a finite value; it is
  modelled by the rational it denotes. Strict comparison (\<open>!==\<close>, \<open><\<close>, \<open>>=\<close>) of two
  such numbers is comparison of their values. Integer arithmetic on indices is exact.
\<close>

type_synonym number = rat

text \<open>
  \<open>PlaylistItem\<close>, with the fields the player reads. \<open>content?.fileUrl\<close> is the only
  part of the content object that is used; it may be absent.
\<close>

record item =
  item_id :: string
  contentId :: string
  order :: number
  duration :: number
  transition :: string
  transitionDuration :: number
  contentType :: string
  fileUrl :: "string option"

text \<open>
  \<open>Playlist\<close> as it arrives from the network: the item sequence may be missing
  (the source guards with \<open>items || []\<close> and \<open>items?.length\<close>). \<open>playlist_name\<close> stands
  for the fields that are carried along by the spread \<open>...nextPlaylist\<close> and are never
  compared.
\<close>

record playlist =
  playlist_id :: string
  playlist_name :: string
  items :: "item list option"

datatype connStatus = Connecting | Connected | Disconnected | ErrorStatus

text \<open>The body that \<open>trackView\<close> posts to \<open>/api/tracking/view\<close>.\<close>

record viewRecord =
  vr_displayId :: string
  vr_playlistId :: string
  vr_contentId :: string
  vr_duration :: int
  vr_expectedDuration :: number
  vr_completed :: bool
  vr_skipped :: bool

text \<open>
  Calls that leave the component: the snapshot cache, the preloader, the status
  telemetry, the view tracking, the memory cleanup and the status callback of the page.
  They are recorded in the order in which the source issues them.
\<close>

datatype effect =
    CachePlaylist string playlist
  | PreloadContent "string list"
  | StatusUpdate string number
  | TrackView viewRecord
  | CleanupMemory
  | ConnectionStatusChange connStatus

text \<open>
  The state of one mounted \<open>DisplayPlayer\<close>: its \<open>useState\<close> cells, its refs
  (\<open>timerRef\<close>, \<open>viewStartTimeRef\<close>, \<open>hasInitialized\<close>), the id of the display it
  was given, and the calls it has issued so far. \<open>timerRef = Some d\<close> means that a
  timeout of \<open>d\<close> milliseconds calling \<open>moveToNextItem\<close> was set and has not been
  cleared.
\<close>

record player =
  displayId :: string
  currentIndex :: number
  isPlaying :: bool
  currentItem :: "item option"
  nextItem :: "item option"
  playlist :: playlist
  connectionStatus :: connStatus
  timerRef :: "number option"
  viewStartTime :: int
  hasInitialized :: bool
  effects :: "effect list"

datatype error = TypeError

section \<open>Array access\<close>

text \<open>
  \<open>xs[i]\<close> in JavaScript: the element when \<open>i\<close> is an integer index inside the
  array, \<open>undefined\<close> otherwise (also for a negative or a fractional \<open>i\<close>).
\<close>

definition itemAt :: "item list \<Rightarrow> number \<Rightarrow> item option" where
  "itemAt xs i =
     (if of_int \<lfloor>i\<rfloor> = i \<and> 0 \<le> i \<and> i < of_nat (length xs)
      then Some (xs ! nat \<lfloor>i\<rfloor>) else None)"

text \<open>\<open>p.items || []\<close>\<close>

definition itemsOrEmpty :: "playlist \<Rightarrow> item list" where
  "itemsOrEmpty p = (case items p of None \<Rightarrow> [] | Some xs \<Rightarrow> xs)"

section \<open>The reconciler: \<open>playlistsEqual\<close> and \<open>applyPlaylist\<close>\<close>

text \<open>The disjunction of the six \<open>!==\<close> tests in the loop body (lines 93-100).\<close>

definition itemDiffers :: "item \<Rightarrow> item \<Rightarrow> bool" where
  "itemDiffers itemA itemB \<longleftrightarrow>
     item_id itemA \<noteq> item_id itemB \<or>
     contentId itemA \<noteq> contentId itemB \<or>
     order itemA \<noteq> order itemB \<or>
     duration itemA \<noteq> duration itemB \<or>
     transition itemA \<noteq> transition itemB \<or>
     transitionDuration itemA \<noteq> transitionDuration itemB"

text \<open>The \<open>for\<close> loop of lines 89-103, from index \<open>i\<close> on.\<close>

function itemsLoop :: "nat \<Rightarrow> item list \<Rightarrow> item list \<Rightarrow> bool" where
  "itemsLoop i itemsA itemsB =
     (if i < length itemsA
      then (if itemDiffers (itemsA ! i) (itemsB ! i) then False
            else itemsLoop (Suc i) itemsA itemsB)
      else True)"
  by pat_completeness auto
termination
  by (relation "measure (\<lambda>(i, itemsA, itemsB). length itemsA - i)") auto

declare itemsLoop.simps [simp del]

definition playlistsEqual :: "playlist option \<Rightarrow> playlist option \<Rightarrow> bool" where
  "playlistsEqual a b =
     (case a of None \<Rightarrow> False | Some pa \<Rightarrow>
      (case b of None \<Rightarrow> False | Some pb \<Rightarrow>
        if playlist_id pa \<noteq> playlist_id pb then False
        else let itemsA = itemsOrEmpty pa; itemsB = itemsOrEmpty pb in
          if length itemsA \<noteq> length itemsB then False
          else itemsLoop 0 itemsA itemsB))"

text \<open>Lines 115-119: the candidate with a missing item sequence replaced by \<open>[]\<close>.\<close>

definition normalizePlaylist :: "playlist \<Rightarrow> playlist" where
  "normalizePlaylist nextPlaylist = nextPlaylist\<lparr>items := Some (itemsOrEmpty nextPlaylist)\<rparr>"

text \<open>
  Lines 142-148: the file URLs of the first three items, YouTube items and items
  without a URL left out.
\<close>

definition preloadUrls :: "item list \<Rightarrow> string list" where
  "preloadUrls xs =
     List.map_filter
       (\<lambda>it. if contentType it = ''youtube'' then None
             else (case fileUrl it of None \<Rightarrow> None
                   | Some u \<Rightarrow> if u = [] then None else Some u))
       (take 3 xs)"

text \<open>
  Lines 125-154, the part of \<open>applyPlaylist\<close> behind the early returns: the new
  playlist is held, the timer is cleared, playback restarts at the first item, the
  cache is written and the first items are preloaded.
\<close>

definition reinitialize :: "playlist \<Rightarrow> int \<Rightarrow> player \<Rightarrow> player" where
  "reinitialize normalizedPlaylist now s =
     (let xs = itemsOrEmpty normalizedPlaylist;
          urls = preloadUrls xs
      in s\<lparr>playlist := normalizedPlaylist,
            timerRef := None,
            currentIndex := 0,
            currentItem := itemAt xs 0,
            nextItem := itemAt xs 1,
            viewStartTime := now,
            effects := effects s @ [CachePlaylist (displayId s) normalizedPlaylist]
                       @ (if length urls > 0 then [PreloadContent urls] else []),
            hasInitialized := True\<rparr>)"

text \<open>
  \<open>applyPlaylist(nextPlaylist, force)\<close>, lines 110-155. \<open>None\<close> is \<open>null\<close> or
  \<open>undefined\<close>; \<open>now\<close> is what \<open>Date.now()\<close> returns during the call.
\<close>

definition applyPlaylist :: "playlist option \<Rightarrow> bool \<Rightarrow> int \<Rightarrow> player \<Rightarrow> player" where
  "applyPlaylist nextPlaylist force now s =
     (case nextPlaylist of
        None \<Rightarrow> s
      | Some p \<Rightarrow>
          let normalizedPlaylist = normalizePlaylist p in
          if \<not> force \<and> hasInitialized s
             \<and> playlistsEqual (Some normalizedPlaylist) (Some (playlist s))
          then s
          else reinitialize normalizedPlaylist now s)"

text \<open>
  The state of the first render (lines 31-45 and 108): index 0, playing, the first
  two items of the prop, no timer, not yet initialized.
\<close>

definition initialState :: "string \<Rightarrow> playlist \<Rightarrow> int \<Rightarrow> player" where
  "initialState did initialPlaylist now =
     \<lparr>displayId = did,
      currentIndex = 0,
      isPlaying = True,
      currentItem = itemAt (itemsOrEmpty initialPlaylist) 0,
      nextItem = itemAt (itemsOrEmpty initialPlaylist) 1,
      playlist = initialPlaylist,
      connectionStatus = Connecting,
      timerRef = None,
      viewStartTime = now,
      hasInitialized = False,
      effects = []\<rparr>"

text \<open>
  The effect of lines 157-166, run with the current value of the \<open>playlist\<close> prop
  (the component only gets this far when the prop is not null, lines 49-58).
\<close>

definition initialPlaylistEffect :: "playlist \<Rightarrow> int \<Rightarrow> player \<Rightarrow> player" where
  "initialPlaylistEffect initialPlaylist now s =
     (if \<not> hasInitialized s then applyPlaylist (Some initialPlaylist) True now s
      else if \<not> playlistsEqual (Some initialPlaylist) (Some (playlist s))
           then applyPlaylist (Some initialPlaylist) False now s
           else s)"

section \<open>The connection status effect\<close>


section \<open>The playback scheduler\<close>

text \<open>
  \<open>Math.round((Date.now() - viewStartTimeRef.current) / 1000)\<close> on integer
  millisecond stamps: \<open>Math.round\<close> rounds halves up.
\<close>

definition viewDuration :: "int \<Rightarrow> int \<Rightarrow> int" where
  "viewDuration now start = (now - start + 500) div 1000"

text \<open>
  \<open>trackView(completed, skipped)\<close>, lines 213-238: nothing without a current item,
  otherwise one POST. A failing POST is caught and logged, so the call never raises.
\<close>

definition trackView :: "bool \<Rightarrow> bool \<Rightarrow> int \<Rightarrow> player \<Rightarrow> player" where
  "trackView completed skipped now s =
     (case currentItem s of
        None \<Rightarrow> s
      | Some it \<Rightarrow>
          s\<lparr>effects := effects s @
             [TrackView \<lparr>vr_displayId = displayId s,
                         vr_playlistId = playlist_id (playlist s),
                         vr_contentId = contentId it,
                         vr_duration = viewDuration now (viewStartTime s),
                         vr_expectedDuration = duration it,
                         vr_completed = completed,
                         vr_skipped = skipped\<rparr>]\<rparr>)"

text \<open>
  The remainder operator \<open>a % n\<close> of JavaScript for a positive length \<open>n\<close>: the
  quotient is truncated towards zero, so the result has the sign of \<open>a\<close>. It is only
  used where the length is at least 2. The value is the exact remainder; it is the
  value JavaScript computes whenever \<open>a\<close> is an integer, which is the case for every
  index that \<open>applyPlaylist\<close>, \<open>moveToNextItem\<close>, \<open>stop\<close>, \<open>restart\<close> and
  \<open>previous\<close> produce from an integer index. For a fractional \<open>a\<close> the floating
  point result of JavaScript can differ from it in the last digits.
\<close>

definition jsRem :: "number \<Rightarrow> nat \<Rightarrow> number" where
  "jsRem a n =
     (let q = a / of_nat n;
          t = (if 0 \<le> q then \<lfloor>q\<rfloor> else \<lceil>q\<rceil>)
      in a - of_nat n * of_int t)"

text \<open>Lines 269-275: the URLs of the two items after \<open>nextIndex\<close>, wrapping.\<close>

definition upcomingUrls :: "item list \<Rightarrow> number \<Rightarrow> string list" where
  "upcomingUrls xs nextIndex =
     List.map_filter
       (\<lambda>i. case itemAt xs (jsRem (nextIndex + of_nat i) (length xs)) of
               None \<Rightarrow> None
             | Some it \<Rightarrow> (case fileUrl it of None \<Rightarrow> None
                           | Some u \<Rightarrow> if u = [] then None else Some u))
       [1, 2]"

definition statusText :: "bool \<Rightarrow> string" where
  "statusText playing = (if playing then ''playing'' else ''paused'')"

text \<open>
  \<open>moveToNextItem()\<close>, lines 241-280. Reading \<open>playlist.items.length\<close> of a playlist
  without an item sequence raises a \<open>TypeError\<close>.
\<close>

definition moveToNextItem :: "int \<Rightarrow> player \<Rightarrow> error + player" where
  "moveToNextItem now s =
     (case items (playlist s) of
        None \<Rightarrow> Inl TypeError
      | Some xs \<Rightarrow>
          if length xs = 0 then Inr s
          else if length xs = 1 then Inr (s\<lparr>viewStartTime := now\<rparr>)
          else
            let s1 = trackView True False now s;
                nextIndex = jsRem (currentIndex s + 1) (length xs);
                followingIndex = jsRem (nextIndex + 1) (length xs)
            in Inr (s1\<lparr>currentIndex := nextIndex,
                        currentItem := itemAt xs nextIndex,
                        viewStartTime := now,
                        nextItem := itemAt xs followingIndex,
                        effects := effects s1 @
                          [CleanupMemory,
                           PreloadContent (upcomingUrls xs nextIndex),
                           StatusUpdate (statusText (isPlaying s)) nextIndex]\<rparr>))"

text \<open>
  The \<open>value\<close> of a control message: a number, or anything for which
  \<open>typeof value === 'number'\<close> is false (also \<open>undefined\<close>).
\<close>

datatype jsValue = JNumber number | JNotNumber

text \<open>
  \<open>handleRemoteControl(action, value)\<close>, lines 283-330: a \<open>switch\<close> on the action
  string without a default case.
\<close>

definition handleRemoteControl :: "string \<Rightarrow> jsValue \<Rightarrow> int \<Rightarrow> player \<Rightarrow> error + player" where
  "handleRemoteControl action val now s =
     (if action = ''play'' then
        Inr (s\<lparr>isPlaying := True,
               effects := effects s @ [StatusUpdate ''playing'' (currentIndex s)]\<rparr>)
      else if action = ''pause'' then
        Inr (s\<lparr>isPlaying := False,
               effects := effects s @ [StatusUpdate ''paused'' (currentIndex s)]\<rparr>)
      else if action = ''stop'' then
        (case items (playlist s) of
           None \<Rightarrow> Inl TypeError
         | Some xs \<Rightarrow>
             Inr (s\<lparr>isPlaying := False,
                    currentIndex := 0,
                    currentItem := itemAt xs 0,
                    effects := effects s @ [StatusUpdate ''paused'' 0]\<rparr>))
      else if action = ''restart'' then
        (case items (playlist s) of
           None \<Rightarrow> Inl TypeError
         | Some xs \<Rightarrow>
             Inr (s\<lparr>currentIndex := 0,
                    currentItem := itemAt xs 0,
                    isPlaying := True,
                    effects := effects s @ [StatusUpdate ''playing'' 0]\<rparr>))
      else if action = ''next'' then
        moveToNextItem now (trackView False True now s)
      else if action = ''previous'' then
        (let s1 = trackView False True now s in
         case items (playlist s) of
           None \<Rightarrow> Inl TypeError
         | Some xs \<Rightarrow>
             let prevIndex = (if currentIndex s = 0 then of_nat (length xs) - 1
                              else currentIndex s - 1)
             in Inr (s1\<lparr>currentIndex := prevIndex,
                         currentItem := itemAt xs prevIndex,
                         viewStartTime := now,
                         effects := effects s1 @
                           [StatusUpdate (statusText (isPlaying s)) prevIndex]\<rparr>))
      else if action = ''seek'' then
        (case val of
           JNotNumber \<Rightarrow> Inr s
         | JNumber v \<Rightarrow>
             if v \<ge> 0 then
               (case items (playlist s) of
                  None \<Rightarrow> Inl TypeError
                | Some xs \<Rightarrow>
                    if v < of_nat (length xs) then
                      Inr (s\<lparr>currentIndex := v,
                             currentItem := itemAt xs v,
                             effects := effects s @
                               [StatusUpdate (statusText (isPlaying s)) v]\<rparr>)
                    else Inr s)
             else Inr s)
      else Inr s)"

section \<open>Keyboard shortcuts\<close>


section \<open>WebSocket messages\<close>

text \<open>The addressees of an emergency stop: the string \<open>'all'\<close> or a list of ids.\<close>

datatype stopTarget = AllDisplays | DisplayIds "string list"

datatype message =
    PlaylistUpdate "string list" "playlist option"
  | DisplayControl string string jsValue
  | EmergencyStop stopTarget
  | OtherMessage

text \<open>The message effect, lines 183-210, run on \<open>lastMessage\<close>.\<close>

definition handleMessage :: "message option \<Rightarrow> int \<Rightarrow> player \<Rightarrow> error + player" where
  "handleMessage lastMessage now s =
     (case lastMessage of
        None \<Rightarrow> Inr s
      | Some (PlaylistUpdate displayIds newPlaylist) \<Rightarrow>
          if displayId s \<in> set displayIds
          then Inr (applyPlaylist newPlaylist False now s)
          else Inr s
      | Some (DisplayControl did action val) \<Rightarrow>
          if did = displayId s then handleRemoteControl action val now s else Inr s
      | Some (EmergencyStop target) \<Rightarrow>
          if (case target of AllDisplays \<Rightarrow> True
              | DisplayIds ids \<Rightarrow> displayId s \<in> set ids)
          then Inr (s\<lparr>isPlaying := False,
                      effects := effects s @ [StatusUpdate ''paused'' (currentIndex s)]\<rparr>)
          else Inr s
      | Some OtherMessage \<Rightarrow> Inr s)"

section \<open>The dwell timer\<close>

text \<open>The cleanup returned by the timer effect, lines 354-359.\<close>

definition timerCleanup :: "player \<Rightarrow> player" where
  "timerCleanup s = s\<lparr>timerRef := None\<rparr>"

text \<open>
  The body of the timer effect, lines 333-352: clear what is pending, then set a new
  timeout of \<open>duration * 1000\<close> milliseconds unless the player is paused, has no
  current item, or holds at most one item.
\<close>

definition timerEffect :: "player \<Rightarrow> error + player" where
  "timerEffect s =
     (let s1 = s\<lparr>timerRef := None\<rparr> in
      if \<not> isPlaying s then Inr s1
      else (case currentItem s of
              None \<Rightarrow> Inr s1
            | Some it \<Rightarrow>
                (case items (playlist s) of
                   None \<Rightarrow> Inl TypeError
                 | Some xs \<Rightarrow>
                     if length xs \<le> 1 then Inr s1
                     else Inr (s1\<lparr>timerRef := Some (duration it * 1000)\<rparr>))))"

text \<open>
  \<open>moveToNextItem\<close> called once at each of the given times, as an expiring timeout
  or a video that ends would do.
\<close>

fun advanceAll :: "int list \<Rightarrow> player \<Rightarrow> error + player" where
  "advanceAll [] s = Inr s"
| "advanceAll (t # ts) s =
     (case moveToNextItem t s of Inl e \<Rightarrow> Inl e | Inr s' \<Rightarrow> advanceAll ts s')"

section \<open>The snapshot cache and runs of the player\<close>






section \<open>The page: polling\<close>

text \<open>The JSON answer of the display endpoint, as far as the page reads it.\<close>

record displayData =
  display_id :: string
  display_name :: string
  assignedPlaylist :: "playlist option"

text \<open>
  The state of \<open>DisplayViewerPage\<close>, with the two things \<open>fetchDisplay\<close> does
  outside of it: the keys it removes from \<open>localStorage\<close> and the page reload it
  schedules.
\<close>

record page =
  pageDisplay :: "displayData option"
  pagePlaylist :: "playlist option"
  loading :: bool
  pageError :: "string option"
  removedKeys :: "string list"
  reloadScheduled :: bool

definition initialPage :: page where
  "initialPage =
     \<lparr>pageDisplay = None, pagePlaylist = None, loading = True, pageError = None,
      removedKeys = [], reloadScheduled = False\<rparr>"

text \<open>
  Lines 88-92: both playlists present, and the ids or the \<open>items?.length\<close> values
  differ (\<open>undefined\<close> for a missing item sequence).
\<close>

definition playlistChanged :: "playlist option \<Rightarrow> playlist option \<Rightarrow> bool" where
  "playlistChanged held assigned =
     (case assigned of None \<Rightarrow> False | Some q \<Rightarrow>
      (case held of None \<Rightarrow> False | Some h \<Rightarrow>
         playlist_id h \<noteq> playlist_id q \<or>
         map_option length (items h) \<noteq> map_option length (items q)))"

definition cacheKey :: "displayData option \<Rightarrow> string" where
  "cacheKey d = ''isodisplay_playlist_'' @
     (case d of None \<Rightarrow> ''undefined'' | Some dd \<Rightarrow> display_id dd)"

text \<open>
  \<open>fetchDisplay(isPolling)\<close>, lines 65-125. \<open>response = None\<close> is a request that
  fails or whose status is not ok, which ends in the \<open>catch\<close> block; otherwise the
  body is the JSON object of the display.
\<close>

definition fetchDisplay :: "bool \<Rightarrow> displayData option \<Rightarrow> page \<Rightarrow> page" where
  "fetchDisplay isPolling response pg =
     (case response of
        None \<Rightarrow> pg\<lparr>pageError := Some ''Failed to load display'', loading := False\<rparr>
      | Some data \<Rightarrow>
          if isPolling \<and> playlistChanged (pagePlaylist pg) (assignedPlaylist data)
          then pg\<lparr>removedKeys := removedKeys pg @ [cacheKey (pageDisplay pg)],
                  reloadScheduled := True\<rparr>
          else
            (case assignedPlaylist data of
               Some q \<Rightarrow> pg\<lparr>pageDisplay := Some data, pagePlaylist := Some q,
                              pageError := None, loading := False\<rparr>
             | None \<Rightarrow> pg\<lparr>pageDisplay := Some data, pagePlaylist := None,
                            pageError := None, loading := False\<rparr>))"

section \<open>The reconciler rule in the words of the specification\<close>

text \<open>
  Two playlists differ structurally when the playlist identity differs, the item count
  differs, or the items at some position differ in (item identity, content reference,
  order, duration, transition kind, transition duration).
\<close>

definition structurallyDiffers :: "playlist \<Rightarrow> playlist \<Rightarrow> bool" where
  "structurallyDiffers c h \<longleftrightarrow>
     playlist_id c \<noteq> playlist_id h \<or>
     length (itemsOrEmpty c) \<noteq> length (itemsOrEmpty h) \<or>
     list_ex
       (\<lambda>(a, b). (item_id a, contentId a, order a, duration a, transition a,
                   transitionDuration a)
                \<noteq> (item_id b, contentId b, order b, duration b, transition b,
                   transitionDuration b))
       (zip (itemsOrEmpty c) (itemsOrEmpty h))"

section \<open>Example data\<close>

text \<open>Three items and some playlists built from them, used to evaluate the model.\<close>

definition itemA :: item where
  "itemA = \<lparr>item_id = ''i1'', contentId = ''c1'', order = 0, duration = 5,
            transition = ''fade'', transitionDuration = 1,
            contentType = ''image'', fileUrl = Some ''/a.png''\<rparr>"

definition itemB :: item where
  "itemB = \<lparr>item_id = ''i2'', contentId = ''c2'', order = 1, duration = 10,
            transition = ''cut'', transitionDuration = 0,
            contentType = ''video'', fileUrl = Some ''/b.mp4''\<rparr>"

definition itemC :: item where
  "itemC = \<lparr>item_id = ''i3'', contentId = ''c3'', order = 2, duration = 7,
            transition = ''fade'', transitionDuration = 1,
            contentType = ''youtube'', fileUrl = None\<rparr>"

definition lobby3 :: playlist where
  "lobby3 = \<lparr>playlist_id = ''p1'', playlist_name = ''Lobby'',
             items = Some [itemA, itemB, itemC]\<rparr>"

text \<open>The first two items of \<open>lobby3\<close>, under the same playlist id.\<close>

definition lobby2 :: playlist where
  "lobby2 = \<lparr>playlist_id = ''p1'', playlist_name = ''Lobby'',
             items = Some [itemA, itemB]\<rparr>"

text \<open>\<open>lobby3\<close> with the dwell time of its second item changed.\<close>

definition lobby3Slower :: playlist where
  "lobby3Slower = \<lparr>playlist_id = ''p1'', playlist_name = ''Lobby'',
             items = Some [itemA, itemB\<lparr>duration := 12\<rparr>, itemC]\<rparr>"

text \<open>
  A second copy of \<open>lobby3\<close> in which only fields outside the comparison differ: the
  name of the playlist and the file behind the first item.
\<close>

definition lobby3Copy :: playlist where
  "lobby3Copy = \<lparr>playlist_id = ''p1'', playlist_name = ''Lobby (copy)'',
             items = Some [itemA\<lparr>fileUrl := Some ''/a-v2.png''\<rparr>, itemB, itemC]\<rparr>"

definition single1 :: playlist where
  "single1 = \<lparr>playlist_id = ''p2'', playlist_name = ''Poster'', items = Some [itemA]\<rparr>"

text \<open>A payload without an item sequence.\<close>

definition bare :: playlist where
  "bare = \<lparr>playlist_id = ''p3'', playlist_name = ''Bare'', items = None\<rparr>"

text \<open>
  The player of display \<open>d1\<close> after its first render with the playlist \<open>p\<close> and
  the first run of the playlist effect. It stands for a mounted player only when
  \<open>p\<close> has an item sequence: with a prop that has none, the first render raises at
  line 360 (\<open>playlist.items.length\<close>) before any effect runs. It is used with such
  playlists only.
\<close>

definition mounted :: "playlist \<Rightarrow> player" where
  "mounted p = initialPlaylistEffect p 0 (initialState ''d1'' p 0)"

text \<open>
  The player of \<open>lobby2\<close> with the timer of its first item pending, and the same
  player after a seek to the position \<open>1/2\<close>.
\<close>

definition armed2 :: player where
  "armed2 = (mounted lobby2)\<lparr>timerRef := Some 5000\<rparr>"

definition stalled2 :: player where
  "stalled2 = armed2\<lparr>currentIndex := 1 / 2, currentItem := None,
                effects := effects armed2 @ [StatusUpdate ''playing'' (1 / 2)]\<rparr>"

text \<open>The page of display \<open>d1\<close> showing \<open>lobby3\<close>, and an answer of the display endpoint.\<close>

definition hallPage :: page where
  "hallPage =
     \<lparr>pageDisplay = Some \<lparr>display_id = ''d1'', display_name = ''Hall'',
                           assignedPlaylist = Some lobby3\<rparr>,
      pagePlaylist = Some lobby3, loading = False, pageError = None,
      removedKeys = [], reloadScheduled = False\<rparr>"

definition hallData :: "playlist \<Rightarrow> displayData" where
  "hallData q = \<lparr>display_id = ''d1'', display_name = ''Hall'', assignedPlaylist = Some q\<rparr>"

text \<open>The player of \<open>lobby3\<close> playing its second item.\<close>

definition atSecond :: player where
  "atSecond = (mounted lobby3)\<lparr>currentIndex := 1, currentItem := Some itemB,
                 nextItem := Some itemC, timerRef := Some 10000\<rparr>"




section \<open>Auxiliary facts\<close>

text \<open>The loop of \<open>playlistsEqual\<close> returns true exactly when no position from \<open>i\<close> on differs.\<close>

lemma itemsLoop_all:
  "itemsLoop i itemsA itemsB \<longleftrightarrow>
     (\<forall>j. i \<le> j \<and> j < length itemsA \<longrightarrow> \<not> itemDiffers (itemsA ! j) (itemsB ! j))"
proof (induction i itemsA itemsB rule: itemsLoop.induct)
  case (1 i itemsA itemsB)
  show ?case
  proof (cases "i < length itemsA")
    case False
    then show ?thesis by (auto simp add: itemsLoop.simps [of i])
  next
    case True
    show ?thesis
    proof (cases "itemDiffers (itemsA ! i) (itemsB ! i)")
      case d: True
      with True show ?thesis by (auto simp add: itemsLoop.simps [of i])
    next
      case d: False
      have "itemsLoop i itemsA itemsB = itemsLoop (Suc i) itemsA itemsB"
        using True d by (simp add: itemsLoop.simps [of i])
      also have "\<dots> \<longleftrightarrow> (\<forall>j. Suc i \<le> j \<and> j < length itemsA \<longrightarrow> \<not> itemDiffers (itemsA ! j) (itemsB ! j))"
        using "1.IH" True d by simp
      also have "\<dots> \<longleftrightarrow> (\<forall>j. i \<le> j \<and> j < length itemsA \<longrightarrow> \<not> itemDiffers (itemsA ! j) (itemsB ! j))"
        using d by (metis Suc_leD Suc_leI le_neq_implies_less)
      finally show ?thesis .
    qed
  qed
qed

lemma itemDiffers_tuple:
  "itemDiffers a b \<longleftrightarrow>
     (item_id a, contentId a, order a, duration a, transition a, transitionDuration a)
   \<noteq> (item_id b, contentId b, order b, duration b, transition b, transitionDuration b)"
  by (auto simp: itemDiffers_def)

lemma list_ex_zip_nth:
  "length xs = length ys \<Longrightarrow>
   list_ex (\<lambda>(a, b). P a b) (zip xs ys) \<longleftrightarrow> (\<exists>j < length xs. P (xs ! j) (ys ! j))"
proof -
  assume len: "length xs = length ys"
  have "list_ex (\<lambda>(a, b). P a b) (zip xs ys)
        \<longleftrightarrow> (\<exists>j < length (zip xs ys). (\<lambda>(a, b). P a b) (zip xs ys ! j))"
    by (simp add: list_ex_length)
  also have "\<dots> \<longleftrightarrow> (\<exists>j < length xs. P (xs ! j) (ys ! j))"
    using len by auto
  finally show ?thesis .
qed

text \<open>\<open>playlistsEqual\<close> computes the negation of the rule of the specification.\<close>

lemma playlistsEqual_iff:
  "playlistsEqual (Some a) (Some b) \<longleftrightarrow> \<not> structurallyDiffers a b"
proof (cases "playlist_id a = playlist_id b \<and> length (itemsOrEmpty a) = length (itemsOrEmpty b)")
  case False
  then show ?thesis by (auto simp: playlistsEqual_def structurallyDiffers_def Let_def)
next
  case True
  then have len: "length (itemsOrEmpty a) = length (itemsOrEmpty b)" by simp
  have "playlistsEqual (Some a) (Some b) = itemsLoop 0 (itemsOrEmpty a) (itemsOrEmpty b)"
    using True by (simp add: playlistsEqual_def Let_def)
  also have "\<dots> \<longleftrightarrow> \<not> (\<exists>j < length (itemsOrEmpty a). itemDiffers (itemsOrEmpty a ! j) (itemsOrEmpty b ! j))"
    by (auto simp: itemsLoop_all)
  also have "\<dots> \<longleftrightarrow> \<not> list_ex (\<lambda>(x, y). itemDiffers x y) (zip (itemsOrEmpty a) (itemsOrEmpty b))"
    using list_ex_zip_nth [OF len, of itemDiffers] by simp
  also have "\<dots> \<longleftrightarrow> \<not> structurallyDiffers a b"
    using True by (simp add: structurallyDiffers_def itemDiffers_tuple)
  finally show ?thesis .
qed

text \<open>Applying always leaves a trace: the cache is written.\<close>

lemma reinitialize_changes: "reinitialize p now s \<noteq> s"
proof
  assume "reinitialize p now s = s"
  then have "length (effects (reinitialize p now s)) = length (effects s)" by simp
  then show False by (simp add: reinitialize_def Let_def)
qed

lemma itemsOrEmpty_normalize [simp]: "itemsOrEmpty (normalizePlaylist p) = itemsOrEmpty p"
  by (simp add: normalizePlaylist_def itemsOrEmpty_def)

lemma playlist_id_normalize [simp]: "playlist_id (normalizePlaylist p) = playlist_id p"
  by (simp add: normalizePlaylist_def)

lemma structurallyDiffers_normalize_left [simp]:
  "structurallyDiffers (normalizePlaylist c) h = structurallyDiffers c h"
  by (simp add: structurallyDiffers_def)

lemma structurallyDiffers_normalize_right [simp]:
  "structurallyDiffers c (normalizePlaylist h) = structurallyDiffers c h"
  by (simp add: structurallyDiffers_def)

lemma structurallyDiffers_refl [simp]: "\<not> structurallyDiffers c c"
  by (auto simp: structurallyDiffers_def list_ex_iff zip_same)

text \<open>The example players, evaluated.\<close>

lemma mounted_lobby3:
  "mounted lobby3 =
     \<lparr>displayId = ''d1'', currentIndex = 0, isPlaying = True,
      currentItem = Some itemA, nextItem = Some itemB, playlist = lobby3,
      connectionStatus = Connecting, timerRef = None, viewStartTime = 0,
      hasInitialized = True,
      effects = [CachePlaylist ''d1'' lobby3, PreloadContent [''/a.png'', ''/b.mp4'']]\<rparr>"
  by (simp add: mounted_def initialPlaylistEffect_def initialState_def applyPlaylist_def
      reinitialize_def normalizePlaylist_def itemsOrEmpty_def itemAt_def preloadUrls_def
      List.map_filter_def lobby3_def itemA_def itemB_def itemC_def Let_def)

lemma mounted_lobby2:
  "mounted lobby2 =
     \<lparr>displayId = ''d1'', currentIndex = 0, isPlaying = True,
      currentItem = Some itemA, nextItem = Some itemB, playlist = lobby2,
      connectionStatus = Connecting, timerRef = None, viewStartTime = 0,
      hasInitialized = True,
      effects = [CachePlaylist ''d1'' lobby2, PreloadContent [''/a.png'', ''/b.mp4'']]\<rparr>"
  by (simp add: mounted_def initialPlaylistEffect_def initialState_def applyPlaylist_def
      reinitialize_def normalizePlaylist_def itemsOrEmpty_def itemAt_def preloadUrls_def
      List.map_filter_def lobby2_def itemA_def itemB_def Let_def)

lemma differs_slower: "structurallyDiffers lobby3Slower lobby3"
  by (simp add: structurallyDiffers_def itemsOrEmpty_def lobby3_def lobby3Slower_def
      itemA_def itemB_def itemC_def)

lemma same_copy: "\<not> structurallyDiffers lobby3Copy lobby3"
  by (simp add: structurallyDiffers_def itemsOrEmpty_def lobby3_def lobby3Copy_def
      itemA_def itemB_def itemC_def)

lemma floor_half: "\<lfloor>(1::rat) / 2\<rfloor> = 0"
  by (rule floor_unique) simp_all

lemma itemAt_half: "itemAt xs (1 / 2) = None"
  by (simp add: itemAt_def floor_half)

text \<open>With a single item, no number of advances moves the player.\<close>

lemma advanceAll_single:
  "items (playlist s) = Some xs \<Longrightarrow> length xs = 1 \<Longrightarrow>
   \<exists>s'. advanceAll ts s = Inr s' \<and> currentIndex s' = currentIndex s \<and>
        currentItem s' = currentItem s \<and> playlist s' = playlist s \<and>
        timerRef s' = timerRef s \<and> effects s' = effects s"
proof (induction ts arbitrary: s)
  case Nil
  then show ?case by simp
next
  case (Cons t ts)
  let ?s1 = "s\<lparr>viewStartTime := t\<rparr>"
  have m: "moveToNextItem t s = Inr ?s1"
    using Cons.prems by (simp add: moveToNextItem_def)
  have "items (playlist ?s1) = Some xs" using Cons.prems by simp
  from Cons.IH [OF this Cons.prems(2)] obtain s' where
    "advanceAll ts ?s1 = Inr s'" "currentIndex s' = currentIndex ?s1"
    "currentItem s' = currentItem ?s1" "playlist s' = playlist ?s1"
    "timerRef s' = timerRef ?s1" "effects s' = effects ?s1"
    by blast
  with m show ?case by simp
qed

text \<open>
  After the playlist effect has run on a prop, the held playlist is the normalized prop,
  or it is what it was and does not differ from the prop.
\<close>

lemma initialPlaylistEffect_held:
  "playlist (initialPlaylistEffect q now s) = normalizePlaylist q \<or>
   (playlist (initialPlaylistEffect q now s) = playlist s \<and>
    \<not> structurallyDiffers q (playlist s))"
  by (simp add: initialPlaylistEffect_def applyPlaylist_def Let_def playlistsEqual_iff
      reinitialize_def)

text \<open>The first two items of an array, and the item at a position inside it.\<close>

lemma itemAt_first: "itemAt xs 0 = (case xs of [] \<Rightarrow> None | x # _ \<Rightarrow> Some x)"
  by (cases xs) (simp_all add: itemAt_def)

lemma itemAt_second:
  "itemAt xs 1 = (case xs of x # y # _ \<Rightarrow> Some y | _ \<Rightarrow> None)"
proof (cases xs)
  case Nil
  then show ?thesis by (simp add: itemAt_def)
next
  case (Cons x ys)
  then show ?thesis by (cases ys) (simp_all add: itemAt_def)
qed





lemma trackView_timerRef [simp]: "timerRef (trackView c k now s) = timerRef s"
  by (simp add: trackView_def split: option.splits)





















section \<open>Properties of the reconciler\<close>

text \<open>
  Claim C1, as the code has it. A null (or undefined) candidate is never applied by
  \<open>applyPlaylist\<close>: for every held state, every \<open>force\<close> and every time, the call
  returns with the held state unchanged. The state "no playlist assigned" is set one
  level up, by the page: every successful fetch whose assigned playlist is null sets the
  playlist of the page to null and ends loading, which is a state different from the
  initial, never-initialized one (still loading).
\<close>

theorem applyPlaylist_null_ignored:
  "applyPlaylist None force now s = s \<and>
   pagePlaylist (fetchDisplay isPolling (Some (d\<lparr>assignedPlaylist := None\<rparr>)) pg) = None \<and>
   loading (fetchDisplay isPolling (Some (d\<lparr>assignedPlaylist := None\<rparr>)) pg) = False \<and>
   fetchDisplay isPolling (Some (d\<lparr>assignedPlaylist := None\<rparr>)) pg \<noteq> initialPage"
proof -
  let ?pg = "fetchDisplay isPolling (Some (d\<lparr>assignedPlaylist := None\<rparr>)) pg"
  have l: "loading ?pg = False" and p: "pagePlaylist ?pg = None"
    by (simp_all add: fetchDisplay_def playlistChanged_def)
  have "loading initialPage = True" by (simp add: initialPage_def)
  with l have "?pg \<noteq> initialPage" by auto
  with l p show ?thesis by (simp add: applyPlaylist_def)
qed

theorem applyPlaylist_null_ignored_witness:
  "applyPlaylist None True 1000 (mounted lobby3) = mounted lobby3 \<and>
   pagePlaylist (fetchDisplay True
      (Some \<lparr>display_id = ''d1'', display_name = ''Hall'', assignedPlaylist = None\<rparr>)
      (initialPage\<lparr>pagePlaylist := Some lobby3\<rparr>)) = None"
  using applyPlaylist_null_ignored [of True 1000 "mounted lobby3" True
      "\<lparr>display_id = ''d1'', display_name = ''Hall'', assignedPlaylist = None\<rparr>"
      "initialPage\<lparr>pagePlaylist := Some lobby3\<rparr>"]
  by simp

text \<open>
  C1 as stated fails: the player that holds \<open>lobby3\<close> and shows its first item still
  holds \<open>lobby3\<close> and still shows that item after a null candidate.
\<close>

theorem applyPlaylist_null_counterexample:
  "applyPlaylist None False 1000 (mounted lobby3) = mounted lobby3 \<and>
   items (playlist (applyPlaylist None False 1000 (mounted lobby3))) = Some [itemA, itemB, itemC] \<and>
   currentItem (applyPlaylist None False 1000 (mounted lobby3)) = Some itemA"
  by (simp add: applyPlaylist_def mounted_lobby3) (simp add: lobby3_def)

text \<open>
  Claim C2. For a candidate that is not null, the item sequence of the normalized
  candidate is the candidate's, or empty when the candidate has none. The candidate is
  applied if and only if \<open>force\<close> is set, or the player has never been initialized,
  or the candidate differs from the held playlist in the playlist id, the item count, or
  at some position in (id, contentId, order, duration, transition,
  transitionDuration); otherwise the state is returned as it is. Applying means: the
  candidate with its normalized item sequence becomes the held playlist, the timer
  reference is cleared, the index is 0, current and next item are the first two items
  (as far as they exist), the view clock restarts, the held playlist is written to the
  cache of the display, the first files are preloaded and the player counts as
  initialized. The comparison is on the compared values alone.
\<close>

theorem applyPlaylist_decision:
  "items (normalizePlaylist c) = Some (case items c of None \<Rightarrow> [] | Some xs \<Rightarrow> xs) \<and>
   applyPlaylist (Some c) force now s =
     (if force \<or> \<not> hasInitialized s \<or> structurallyDiffers c (playlist s)
      then s\<lparr>playlist := c\<lparr>items := Some (case items c of None \<Rightarrow> [] | Some xs \<Rightarrow> xs)\<rparr>,
             timerRef := None,
             currentIndex := 0,
             currentItem := (case items c of Some (x # _) \<Rightarrow> Some x | _ \<Rightarrow> None),
             nextItem := (case items c of Some (x # y # _) \<Rightarrow> Some y | _ \<Rightarrow> None),
             viewStartTime := now,
             effects := effects s @
               [CachePlaylist (displayId s)
                  (c\<lparr>items := Some (case items c of None \<Rightarrow> [] | Some xs \<Rightarrow> xs)\<rparr>)] @
               (if preloadUrls (case items c of None \<Rightarrow> [] | Some xs \<Rightarrow> xs) = [] then []
                else [PreloadContent
                        (preloadUrls (case items c of None \<Rightarrow> [] | Some xs \<Rightarrow> xs))]),
             hasInitialized := True\<rparr>
      else s) \<and>
   (applyPlaylist (Some c) force now s \<noteq> s \<longleftrightarrow>
      force \<or> \<not> hasInitialized s \<or> structurallyDiffers c (playlist s))"
proof -
  let ?xs = "case items c of None \<Rightarrow> [] | Some xs \<Rightarrow> xs"
  have n: "normalizePlaylist c = c\<lparr>items := Some ?xs\<rparr>"
    by (simp add: normalizePlaylist_def itemsOrEmpty_def)
  have ie: "itemsOrEmpty (normalizePlaylist c) = ?xs"
    by (simp add: itemsOrEmpty_def normalizePlaylist_def)
  have f: "itemAt ?xs 0 = (case items c of Some (x # _) \<Rightarrow> Some x | _ \<Rightarrow> None)"
    by (simp add: itemAt_first split: option.splits list.splits)
  have g: "itemAt ?xs 1 = (case items c of Some (x # y # _) \<Rightarrow> Some y | _ \<Rightarrow> None)"
    by (simp add: itemAt_second split: option.splits list.splits)
  have r: "reinitialize (normalizePlaylist c) now s =
      s\<lparr>playlist := c\<lparr>items := Some ?xs\<rparr>,
             timerRef := None,
             currentIndex := 0,
             currentItem := (case items c of Some (x # _) \<Rightarrow> Some x | _ \<Rightarrow> None),
             nextItem := (case items c of Some (x # y # _) \<Rightarrow> Some y | _ \<Rightarrow> None),
             viewStartTime := now,
             effects := effects s @
               [CachePlaylist (displayId s) (c\<lparr>items := Some ?xs\<rparr>)] @
               (if preloadUrls ?xs = [] then [] else [PreloadContent (preloadUrls ?xs)]),
             hasInitialized := True\<rparr>"
    unfolding reinitialize_def Let_def ie f g n [symmetric] by simp
  have a: "applyPlaylist (Some c) force now s =
     (if force \<or> \<not> hasInitialized s \<or> structurallyDiffers c (playlist s)
      then reinitialize (normalizePlaylist c) now s else s)"
    by (simp add: applyPlaylist_def Let_def playlistsEqual_iff)
  have d: "applyPlaylist (Some c) force now s \<noteq> s \<longleftrightarrow>
      force \<or> \<not> hasInitialized s \<or> structurallyDiffers c (playlist s)"
    unfolding a by (simp add: reinitialize_changes)
  have i: "items (normalizePlaylist c) = Some ?xs" by (simp add: n)
  from i a [unfolded r] d show ?thesis by blast
qed

text \<open>
  A changed dwell time is applied and the result is spelled out; a candidate without
  items is held with an empty sequence; a copy of the held playlist that is a different
  value (another name, another file) but equal in the compared fields is not applied.
\<close>

theorem applyPlaylist_decision_witness:
  "items (normalizePlaylist bare) = Some [] \<and>
   applyPlaylist (Some lobby3Slower) False 9 (mounted lobby3) =
     \<lparr>displayId = ''d1'', currentIndex = 0, isPlaying = True,
      currentItem = Some itemA, nextItem = Some (itemB\<lparr>duration := 12\<rparr>),
      playlist = lobby3Slower, connectionStatus = Connecting, timerRef = None,
      viewStartTime = 9, hasInitialized = True,
      effects = [CachePlaylist ''d1'' lobby3, PreloadContent [''/a.png'', ''/b.mp4''],
                 CachePlaylist ''d1'' lobby3Slower,
                 PreloadContent [''/a.png'', ''/b.mp4'']]\<rparr> \<and>
   playlist (applyPlaylist (Some bare) True 9 (mounted lobby3)) = bare\<lparr>items := Some []\<rparr> \<and>
   currentItem (applyPlaylist (Some bare) True 9 (mounted lobby3)) = None \<and>
   applyPlaylist (Some lobby3Copy) False 9 (mounted lobby3) = mounted lobby3 \<and>
   lobby3Copy \<noteq> lobby3"
proof -
  have h: "hasInitialized (mounted lobby3)" "playlist (mounted lobby3) = lobby3"
    by (simp_all add: mounted_lobby3)
  have b: "items bare = None" by (simp add: bare_def)
  have isl: "items lobby3Slower = Some [itemA, itemB\<lparr>duration := 12\<rparr>, itemC]"
    by (simp add: lobby3Slower_def)
  have ls: "lobby3Slower\<lparr>items := Some [itemA, itemB\<lparr>duration := 12\<rparr>, itemC]\<rparr> = lobby3Slower"
    by (simp add: lobby3Slower_def)
  have pu: "preloadUrls [itemA, itemB\<lparr>duration := 12\<rparr>, itemC] = [''/a.png'', ''/b.mp4'']"
    by code_simp
  have pe: "preloadUrls [] = []" by (simp add: preloadUrls_def List.map_filter_def)
  have ne: "lobby3Copy \<noteq> lobby3"
  proof
    assume "lobby3Copy = lobby3"
    then have "playlist_name lobby3Copy = playlist_name lobby3" by simp
    then show False by (simp add: lobby3Copy_def lobby3_def)
  qed
  have m: "mounted lobby3\<lparr>playlist := lobby3Slower, timerRef := None, currentIndex := 0,
             currentItem := Some itemA, nextItem := Some (itemB\<lparr>duration := 12\<rparr>),
             viewStartTime := 9,
             effects := effects (mounted lobby3) @
               [CachePlaylist (displayId (mounted lobby3)) lobby3Slower,
                PreloadContent [''/a.png'', ''/b.mp4'']],
             hasInitialized := True\<rparr> =
     \<lparr>displayId = ''d1'', currentIndex = 0, isPlaying = True,
      currentItem = Some itemA, nextItem = Some (itemB\<lparr>duration := 12\<rparr>),
      playlist = lobby3Slower, connectionStatus = Connecting, timerRef = None,
      viewStartTime = 9, hasInitialized = True,
      effects = [CachePlaylist ''d1'' lobby3, PreloadContent [''/a.png'', ''/b.mp4''],
                 CachePlaylist ''d1'' lobby3Slower,
                 PreloadContent [''/a.png'', ''/b.mp4'']]\<rparr>"
    unfolding mounted_lobby3 by simp
  show ?thesis
    using applyPlaylist_decision [of bare True 9 "mounted lobby3"]
      applyPlaylist_decision [of lobby3Slower False 9 "mounted lobby3"]
      applyPlaylist_decision [of lobby3Copy False 9 "mounted lobby3"]
      differs_slower same_copy ne
    by (simp add: h b isl ls pu pe m)
qed

text \<open>
  Claim C3. In an initialized player, applying without \<open>force\<close> a playlist that is
  structurally identical to the held one returns the very same state, through
  \<open>applyPlaylist\<close> and through the playlist effect alike: timer reference, index,
  current item, view start and issued calls are all unchanged, so nothing is rendered
  again. Consequently applying the same candidate a second time, without \<open>force\<close>,
  changes nothing, whatever the first application did.
\<close>

theorem applyPlaylist_idempotent:
  "(hasInitialized s \<and> \<not> structurallyDiffers c (playlist s) \<longrightarrow>
      applyPlaylist (Some c) False now s = s \<and> initialPlaylistEffect c now s = s) \<and>
   applyPlaylist (Some c) False now' (applyPlaylist (Some c) force now s)
     = applyPlaylist (Some c) force now s"
proof -
  have one: "applyPlaylist (Some c) False now s = s \<and> initialPlaylistEffect c now s = s"
    if "hasInitialized s" "\<not> structurallyDiffers c (playlist s)"
    using that
    by (simp add: applyPlaylist_def initialPlaylistEffect_def Let_def playlistsEqual_iff)
  have two: "applyPlaylist (Some c) False now' (applyPlaylist (Some c) force now s)
     = applyPlaylist (Some c) force now s"
  proof (cases "force \<or> \<not> hasInitialized s \<or> structurallyDiffers c (playlist s)")
    case True
    then have a: "applyPlaylist (Some c) force now s = reinitialize (normalizePlaylist c) now s"
      by (auto simp: applyPlaylist_def Let_def playlistsEqual_iff)
    have "hasInitialized (reinitialize (normalizePlaylist c) now s)"
      and "playlist (reinitialize (normalizePlaylist c) now s) = normalizePlaylist c"
      by (simp_all add: reinitialize_def Let_def)
    then show ?thesis
      unfolding a by (simp add: applyPlaylist_def Let_def playlistsEqual_iff)
  next
    case False
    then show ?thesis
      by (simp add: applyPlaylist_def Let_def playlistsEqual_iff)
  qed
  from one two show ?thesis by blast
qed

theorem applyPlaylist_idempotent_witness:
  "hasInitialized ((mounted lobby3)\<lparr>timerRef := Some 5000\<rparr>) \<and>
   \<not> structurallyDiffers lobby3Copy (playlist ((mounted lobby3)\<lparr>timerRef := Some 5000\<rparr>)) \<and>
   applyPlaylist (Some lobby3Copy) False 777 ((mounted lobby3)\<lparr>timerRef := Some 5000\<rparr>)
     = (mounted lobby3)\<lparr>timerRef := Some 5000\<rparr> \<and>
   initialPlaylistEffect lobby3Copy 777 ((mounted lobby3)\<lparr>timerRef := Some 5000\<rparr>)
     = (mounted lobby3)\<lparr>timerRef := Some 5000\<rparr> \<and>
   applyPlaylist (Some lobby3Slower) False 888
       (applyPlaylist (Some lobby3Slower) False 777 (mounted lobby3))
     = applyPlaylist (Some lobby3Slower) False 777 (mounted lobby3)"
proof -
  have h: "hasInitialized ((mounted lobby3)\<lparr>timerRef := Some 5000\<rparr>)"
    "playlist ((mounted lobby3)\<lparr>timerRef := Some 5000\<rparr>) = lobby3"
    by (simp_all add: mounted_lobby3)
  show ?thesis
    using applyPlaylist_idempotent
        [of "(mounted lobby3)\<lparr>timerRef := Some 5000\<rparr>" lobby3Copy 777 888 False]
      applyPlaylist_idempotent [of "mounted lobby3" lobby3Slower 777 888 False]
      same_copy h
    by simp
qed

section \<open>Properties of the dwell timer\<close>

text \<open>
  With exactly one item the timer effect never sets a timeout, and
  \<open>moveToNextItem\<close> only restarts the view clock, once or any number of times.
\<close>

lemma single_item_never_advances:
  assumes "items (playlist s) = Some xs" and "length xs = 1"
  shows "timerEffect s = Inr (s\<lparr>timerRef := None\<rparr>)"
    and "moveToNextItem now s = Inr (s\<lparr>viewStartTime := now\<rparr>)"
    and "\<exists>s'. advanceAll ts s = Inr s' \<and> currentIndex s' = currentIndex s \<and>
              currentItem s' = currentItem s \<and> playlist s' = playlist s"
proof -
  show "timerEffect s = Inr (s\<lparr>timerRef := None\<rparr>)"
    using assms by (auto simp: timerEffect_def Let_def split: option.splits)
  show "moveToNextItem now s = Inr (s\<lparr>viewStartTime := now\<rparr>)"
    using assms by (simp add: moveToNextItem_def)
  show "\<exists>s'. advanceAll ts s = Inr s' \<and> currentIndex s' = currentIndex s \<and>
              currentItem s' = currentItem s \<and> playlist s' = playlist s"
    using advanceAll_single [OF assms, of ts] by blast
qed

text \<open>
  With two or more items, playing and showing an item, the timer effect sets the
  timeout of that item.
\<close>

lemma timer_armed_for_current_item:
  "items (playlist s) = Some xs \<Longrightarrow> 2 \<le> length xs \<Longrightarrow> isPlaying s \<Longrightarrow>
   currentItem s = Some it \<Longrightarrow>
   timerEffect s = Inr (s\<lparr>timerRef := Some (duration it * 1000)\<rparr>)"
  by (simp add: timerEffect_def Let_def)

text \<open>
  Claim C5: a playlist of two or more items has a live dwell timer whenever the player
  is playing. The code breaks this at a state it reaches. The player holds the two
  items of \<open>lobby2\<close>, is playing, and the timeout of the first item is pending. A
  control message \<open>seek\<close> with the value \<open>1/2\<close> passes the range test of line 321,
  which does not ask for an integer; the index becomes \<open>1/2\<close> and the current item
  \<open>items[0.5]\<close>, which is undefined. The player is still playing two items, and the
  next run of the timer effect (cleanup, then body) leaves no timeout pending.
\<close>

theorem seek_fraction_leaves_no_timer:
  "timerEffect (mounted lobby2) = Inr armed2 \<and>
   handleMessage (Some (DisplayControl ''d1'' ''seek'' (JNumber (1 / 2)))) 1000 armed2
     = Inr stalled2 \<and>
   isPlaying stalled2 \<and>
   items (playlist stalled2) = Some [itemA, itemB] \<and>
   timerEffect (timerCleanup stalled2) = Inr (stalled2\<lparr>timerRef := None\<rparr>)"
  unfolding stalled2_def armed2_def mounted_lobby2
  by (simp add: timerEffect_def handleMessage_def handleRemoteControl_def timerCleanup_def
      itemAt_half statusText_def lobby2_def itemA_def)




section \<open>Properties of polling and of the cache fallback\<close>

text \<open>
  Claim C6. Let the page hold a playlist and let a poll answer carry one. If the two
  item counts differ, the poll does not patch the page: the playlist, the display and
  the flags of the page stay as they are, the cache key of the display is removed and a
  reload of the page is scheduled; this holds whatever the items are, also when the
  shorter sequence is a prefix of the longer one. If the ids agree and the item
  sequences have the same length (or are both missing), no reload is scheduled and the
  answer is taken over in place, whatever changed inside the items.
\<close>

theorem poll_item_count_drift:
  "pagePlaylist pg = Some h \<Longrightarrow> assignedPlaylist data = Some q \<Longrightarrow>
     (length (itemsOrEmpty h) \<noteq> length (itemsOrEmpty q) \<longrightarrow>
        fetchDisplay True (Some data) pg =
          pg\<lparr>removedKeys := removedKeys pg @ [cacheKey (pageDisplay pg)],
             reloadScheduled := True\<rparr>) \<and>
     (playlist_id h = playlist_id q \<and>
      map_option length (items h) = map_option length (items q) \<longrightarrow>
        fetchDisplay True (Some data) pg =
          pg\<lparr>pageDisplay := Some data, pagePlaylist := Some q,
             pageError := None, loading := False\<rparr>)"
  by (auto simp: fetchDisplay_def playlistChanged_def itemsOrEmpty_def split: option.splits)

theorem poll_item_count_drift_witness:
  "pagePlaylist hallPage = Some lobby3 \<and>
   assignedPlaylist (hallData lobby2) = Some lobby2 \<and>
   take 2 (itemsOrEmpty lobby3) = itemsOrEmpty lobby2 \<and>
   fetchDisplay True (Some (hallData lobby2)) hallPage =
     hallPage\<lparr>removedKeys := [''isodisplay_playlist_d1''], reloadScheduled := True\<rparr> \<and>
   fetchDisplay True (Some (hallData lobby3Copy)) hallPage =
     hallPage\<lparr>pageDisplay := Some (hallData lobby3Copy), pagePlaylist := Some lobby3Copy\<rparr>"
proof -
  have p: "pagePlaylist hallPage = Some lobby3" by (simp add: hallPage_def)
  have a2: "assignedPlaylist (hallData lobby2) = Some lobby2"
    and a3: "assignedPlaylist (hallData lobby3Copy) = Some lobby3Copy"
    by (simp_all add: hallData_def)
  have i3: "items lobby3 = Some [itemA, itemB, itemC]" by (simp add: lobby3_def)
  have i2: "items lobby2 = Some [itemA, itemB]" by (simp add: lobby2_def)
  have ic: "items lobby3Copy = Some [itemA\<lparr>fileUrl := Some ''/a-v2.png''\<rparr>, itemB, itemC]"
    by (simp add: lobby3Copy_def)
  have ids: "playlist_id lobby3 = playlist_id lobby3Copy"
    by (simp add: lobby3_def lobby3Copy_def)
  have k: "cacheKey (pageDisplay hallPage) = ''isodisplay_playlist_d1''"
    by (simp add: cacheKey_def hallPage_def)
  have r: "removedKeys hallPage = []" "pageError hallPage = None" "loading hallPage = False"
    by (simp_all add: hallPage_def)
  show ?thesis
    using poll_item_count_drift [OF p a2]
      poll_item_count_drift [OF p a3]
      p a2 i3 i2 ic ids k r
    by (simp add: itemsOrEmpty_def)
qed




section \<open>Properties of the remote commands\<close>

text \<open>
  Claim C7. An emergency stop addressed to all displays, or to a list of ids that
  contains the id of this display, sets the player to paused whether it was playing or
  not, reports \<open>paused\<close> with the current index, and changes nothing else: the index,
  the current item and the playlist stay.
\<close>

theorem emergency_stop_pauses:
  "target = AllDisplays \<or> (\<exists>ids. target = DisplayIds ids \<and> displayId s \<in> set ids) \<Longrightarrow>
   handleMessage (Some (EmergencyStop target)) now s =
     Inr (s\<lparr>isPlaying := False,
            effects := effects s @ [StatusUpdate ''paused'' (currentIndex s)]\<rparr>)"
  by (auto simp: handleMessage_def)

theorem emergency_stop_pauses_witness:
  "isPlaying atSecond \<and> currentIndex atSecond = 1 \<and>
   handleMessage (Some (EmergencyStop AllDisplays)) 3000 atSecond =
     Inr (atSecond\<lparr>isPlaying := False,
            effects := effects atSecond @ [StatusUpdate ''paused'' 1]\<rparr>) \<and>
   handleMessage (Some (EmergencyStop (DisplayIds [''d7'', ''d1'']))) 3000
       (atSecond\<lparr>isPlaying := False\<rparr>) =
     Inr (atSecond\<lparr>isPlaying := False,
            effects := effects atSecond @ [StatusUpdate ''paused'' 1]\<rparr>)"
proof -
  have h: "isPlaying atSecond" "currentIndex atSecond = 1" "displayId atSecond = ''d1''"
    by (simp_all add: atSecond_def mounted_lobby3)
  show ?thesis
    using emergency_stop_pauses [of AllDisplays atSecond 3000]
      emergency_stop_pauses [of "DisplayIds [''d7'', ''d1'']" "atSecond\<lparr>isPlaying := False\<rparr>" 3000]
      h
    by simp
qed

text \<open>
  Claim C8. In a player that holds an item sequence, \<open>seek\<close> with a number \<open>v\<close>,
  \<open>0 \<le> v\<close> and \<open>v\<close> below the item count, sets the index to \<open>v\<close> and the current
  item to the item at \<open>v\<close>; with a number outside this range, or with a value that
  is not a number, the command returns normally (no error) with the state unchanged.
\<close>

theorem seek_in_range_only:
  "items (playlist s) = Some xs \<Longrightarrow>
     (0 \<le> v \<and> v < of_nat (length xs) \<longrightarrow>
        handleRemoteControl ''seek'' (JNumber v) now s =
          Inr (s\<lparr>currentIndex := v, currentItem := itemAt xs v,
                 effects := effects s @ [StatusUpdate (statusText (isPlaying s)) v]\<rparr>)) \<and>
     (v < 0 \<or> of_nat (length xs) \<le> v \<longrightarrow>
        handleRemoteControl ''seek'' (JNumber v) now s = Inr s) \<and>
     handleRemoteControl ''seek'' JNotNumber now s = Inr s"
  by (auto simp: handleRemoteControl_def)

theorem seek_in_range_only_witness:
  "items (playlist (mounted lobby3)) = Some [itemA, itemB, itemC] \<and>
   handleRemoteControl ''seek'' (JNumber 2) 1000 (mounted lobby3) =
     Inr ((mounted lobby3)\<lparr>currentIndex := 2, currentItem := Some itemC,
            effects := effects (mounted lobby3) @ [StatusUpdate ''playing'' 2]\<rparr>) \<and>
   handleRemoteControl ''seek'' (JNumber 3) 1000 (mounted lobby3) = Inr (mounted lobby3) \<and>
   handleRemoteControl ''seek'' (JNumber (- 1)) 1000 (mounted lobby3) = Inr (mounted lobby3) \<and>
   handleRemoteControl ''seek'' JNotNumber 1000 (mounted lobby3) = Inr (mounted lobby3)"
proof -
  have i: "items (playlist (mounted lobby3)) = Some [itemA, itemB, itemC]"
    by (simp add: mounted_lobby3) (simp add: lobby3_def)
  have p: "isPlaying (mounted lobby3)" by (simp add: mounted_lobby3)
  have a: "itemAt [itemA, itemB, itemC] 2 = Some itemC" by (simp add: itemAt_def)
  show ?thesis
    using seek_in_range_only [OF i, of 2 1000] seek_in_range_only [OF i, of 3 1000]
      seek_in_range_only [OF i, of "- 1" 1000] i p a
    by (simp add: statusText_def)
qed

text \<open>
  Claim C10. With at least two items and a current item, the command \<open>next\<close> issues
  two view records for the item being left, one after the other: first skipped and not
  completed (from the command handler), then completed and not skipped (from
  \<open>moveToNextItem\<close>); the cleanup, the preload and the status update follow.
\<close>

theorem next_tracks_twice:
  "items (playlist s) = Some xs \<Longrightarrow> 2 \<le> length xs \<Longrightarrow> currentItem s = Some it \<Longrightarrow>
   \<exists>s'. handleRemoteControl ''next'' val now s = Inr s' \<and>
        effects s' = effects s @
          [TrackView \<lparr>vr_displayId = displayId s,
                      vr_playlistId = playlist_id (playlist s),
                      vr_contentId = contentId it,
                      vr_duration = viewDuration now (viewStartTime s),
                      vr_expectedDuration = duration it,
                      vr_completed = False, vr_skipped = True\<rparr>,
           TrackView \<lparr>vr_displayId = displayId s,
                      vr_playlistId = playlist_id (playlist s),
                      vr_contentId = contentId it,
                      vr_duration = viewDuration now (viewStartTime s),
                      vr_expectedDuration = duration it,
                      vr_completed = True, vr_skipped = False\<rparr>,
           CleanupMemory,
           PreloadContent (upcomingUrls xs (jsRem (currentIndex s + 1) (length xs))),
           StatusUpdate (statusText (isPlaying s)) (jsRem (currentIndex s + 1) (length xs))]"
  by (auto simp: handleRemoteControl_def moveToNextItem_def trackView_def Let_def)

theorem next_tracks_twice_witness:
  "items (playlist (mounted lobby3)) = Some [itemA, itemB, itemC] \<and>
   2 \<le> length [itemA, itemB, itemC] \<and>
   currentItem (mounted lobby3) = Some itemA \<and>
   (\<exists>s'. handleRemoteControl ''next'' JNotNumber 4200 (mounted lobby3) = Inr s' \<and>
         effects s' =
           [CachePlaylist ''d1'' lobby3, PreloadContent [''/a.png'', ''/b.mp4''],
            TrackView \<lparr>vr_displayId = ''d1'', vr_playlistId = ''p1'', vr_contentId = ''c1'',
              vr_duration = 4, vr_expectedDuration = 5,
              vr_completed = False, vr_skipped = True\<rparr>,
            TrackView \<lparr>vr_displayId = ''d1'', vr_playlistId = ''p1'', vr_contentId = ''c1'',
              vr_duration = 4, vr_expectedDuration = 5,
              vr_completed = True, vr_skipped = False\<rparr>,
            CleanupMemory, PreloadContent [''/a.png''], StatusUpdate ''playing'' 1])"
proof -
  have i: "items (playlist (mounted lobby3)) = Some [itemA, itemB, itemC]"
    by (simp add: mounted_lobby3) (simp add: lobby3_def)
  have l: "2 \<le> length [itemA, itemB, itemC]" by simp
  have c: "currentItem (mounted lobby3) = Some itemA" by (simp add: mounted_lobby3)
  from next_tracks_twice [OF i l c, of JNotNumber 4200]
  obtain s' where s': "handleRemoteControl ''next'' JNotNumber 4200 (mounted lobby3) = Inr s'"
    and e: "effects s' = effects (mounted lobby3) @
          [TrackView \<lparr>vr_displayId = displayId (mounted lobby3),
                      vr_playlistId = playlist_id (playlist (mounted lobby3)),
                      vr_contentId = contentId itemA,
                      vr_duration = viewDuration 4200 (viewStartTime (mounted lobby3)),
                      vr_expectedDuration = duration itemA,
                      vr_completed = False, vr_skipped = True\<rparr>,
           TrackView \<lparr>vr_displayId = displayId (mounted lobby3),
                      vr_playlistId = playlist_id (playlist (mounted lobby3)),
                      vr_contentId = contentId itemA,
                      vr_duration = viewDuration 4200 (viewStartTime (mounted lobby3)),
                      vr_expectedDuration = duration itemA,
                      vr_completed = True, vr_skipped = False\<rparr>,
           CleanupMemory,
           PreloadContent (upcomingUrls [itemA, itemB, itemC]
              (jsRem (currentIndex (mounted lobby3) + 1) (length [itemA, itemB, itemC]))),
           StatusUpdate (statusText (isPlaying (mounted lobby3)))
              (jsRem (currentIndex (mounted lobby3) + 1) (length [itemA, itemB, itemC]))]"
    by blast
  have "effects (mounted lobby3) @
          [TrackView \<lparr>vr_displayId = displayId (mounted lobby3),
                      vr_playlistId = playlist_id (playlist (mounted lobby3)),
                      vr_contentId = contentId itemA,
                      vr_duration = viewDuration 4200 (viewStartTime (mounted lobby3)),
                      vr_expectedDuration = duration itemA,
                      vr_completed = False, vr_skipped = True\<rparr>,
           TrackView \<lparr>vr_displayId = displayId (mounted lobby3),
                      vr_playlistId = playlist_id (playlist (mounted lobby3)),
                      vr_contentId = contentId itemA,
                      vr_duration = viewDuration 4200 (viewStartTime (mounted lobby3)),
                      vr_expectedDuration = duration itemA,
                      vr_completed = True, vr_skipped = False\<rparr>,
           CleanupMemory,
           PreloadContent (upcomingUrls [itemA, itemB, itemC]
              (jsRem (currentIndex (mounted lobby3) + 1) (length [itemA, itemB, itemC]))),
           StatusUpdate (statusText (isPlaying (mounted lobby3)))
              (jsRem (currentIndex (mounted lobby3) + 1) (length [itemA, itemB, itemC]))]
        = [CachePlaylist ''d1'' lobby3, PreloadContent [''/a.png'', ''/b.mp4''],
            TrackView \<lparr>vr_displayId = ''d1'', vr_playlistId = ''p1'', vr_contentId = ''c1'',
              vr_duration = 4, vr_expectedDuration = 5,
              vr_completed = False, vr_skipped = True\<rparr>,
            TrackView \<lparr>vr_displayId = ''d1'', vr_playlistId = ''p1'', vr_contentId = ''c1'',
              vr_duration = 4, vr_expectedDuration = 5,
              vr_completed = True, vr_skipped = False\<rparr>,
            CleanupMemory, PreloadContent [''/a.png''], StatusUpdate ''playing'' 1]"
    by code_simp
  with e have "effects s' =
           [CachePlaylist ''d1'' lobby3, PreloadContent [''/a.png'', ''/b.mp4''],
            TrackView \<lparr>vr_displayId = ''d1'', vr_playlistId = ''p1'', vr_contentId = ''c1'',
              vr_duration = 4, vr_expectedDuration = 5,
              vr_completed = False, vr_skipped = True\<rparr>,
            TrackView \<lparr>vr_displayId = ''d1'', vr_playlistId = ''p1'', vr_contentId = ''c1'',
              vr_duration = 4, vr_expectedDuration = 5,
              vr_completed = True, vr_skipped = False\<rparr>,
            CleanupMemory, PreloadContent [''/a.png''], StatusUpdate ''playing'' 1]"
    by (rule trans)
  with s' i l c show ?thesis by blast
qed

end
